theory Spec2Isabelle
  imports Main "HOL-Library.Sublist"
begin

section \<open>Data model (src/models/Todo.ts, src/types/TodoTypes.ts)\<close>

text \<open>
  The two enums of the model. In the source they are string enums whose values are
  their own names, so none of their values is falsy in JavaScript.
\<close>

datatype TodoPriority = LOW | MEDIUM | HIGH | URGENT

datatype TodoStatus = TODO | IN_PROGRESS | COMPLETED

text \<open>
  A JavaScript \<^verbatim>\<open>Date\<close> is its time value in milliseconds, or the Invalid Date
  (\<open>None\<close>). A stored document only ever holds valid dates.
\<close>

type_synonym js_date = "int option"

text \<open>
  \<^verbatim>\<open>ITodo\<close>: a stored document. \<open>todo_id\<close> is the \<^verbatim>\<open>_id\<close> of the document (an
  ObjectId, here a number); \<open>description\<close> and \<open>dueDate\<close> are the optional paths.
\<close>

record todo =
  todo_id :: nat
  title :: string
  description :: "string option"
  status :: TodoStatus
  priority :: TodoPriority
  dueDate :: "int option"
  tags :: "string list"
  completed :: bool
  createdAt :: int
  updatedAt :: int

text \<open>The collection: the documents in their natural order.\<close>

type_synonym store = "todo list"

text \<open>A value of TypeScript type \<^verbatim>\<open>Date | string\<close>.\<close>

datatype date_input = DateObj js_date | DateStr string

text \<open>
  \<^verbatim>\<open>TodoUpdateInput\<close> and \<^verbatim>\<open>PaginationInput\<close>: every field is optional, \<open>None\<close> is
  \<^verbatim>\<open>undefined\<close>. The numbers of \<^verbatim>\<open>PaginationInput\<close> are the integers a GraphQL
  \<^verbatim>\<open>Int\<close> delivers.
\<close>

record TodoUpdateInput =
  u_title :: "string option"
  u_description :: "string option"
  u_status :: "TodoStatus option"
  u_priority :: "TodoPriority option"
  u_dueDate :: "date_input option"
  u_tags :: "string list option"
  u_completed :: "bool option"

text \<open>
  \<^verbatim>\<open>TodoFilters\<close>. The TypeScript interface declares every field optional; the GraphQL
  schema (src/schema/schema.ts) makes every field of the input, and the input itself,
  nullable, and the resolver hands \<^verbatim>\<open>args.filters\<close> to the service as it arrives. So
  a field is \<^verbatim>\<open>undefined\<close> (\<open>None\<close>), \<^verbatim>\<open>null\<close> (\<open>Some Null\<close>) or a value
  (\<open>Some (Val v)\<close>).
\<close>

datatype 'a nullable = Null | Val 'a

record TodoFilters =
  f_status :: "TodoStatus nullable option"
  f_completed :: "bool nullable option"
  f_priority :: "TodoPriority nullable option"
  f_tags :: "string list nullable option"
  f_search :: "string nullable option"
  f_dueDateBefore :: "date_input nullable option"
  f_dueDateAfter :: "date_input nullable option"

record PaginationInput =
  p_page :: "int option"
  p_limit :: "int option"
  p_sortBy :: "string option"
  p_sortOrder :: "string option"

section \<open>The environment: library behaviour the code relies on\<close>

text \<open>
  What the JavaScript runtime, Mongoose and the MongoDB server decide, and the
  repository does not: how an id string is cast to an ObjectId and printed back, how a
  date string is parsed (\<^verbatim>\<open>new Date(s)\<close>) and how Mongoose casts a string to its Date
  type (\<open>None\<close>: the cast fails; \<open>Some None\<close>: it yields \<^verbatim>\<open>null\<close>), how a date prints
  (\<^verbatim>\<open>toISOString\<close>), and what the regular-expression engine does with a pattern
  outside the fragment modelled below. Every operation takes the environment as its
  first argument, and every theorem holds for all environments.
\<close>

record env =
  castObjectId :: "string \<Rightarrow> nat option"
  oidToString :: "nat \<Rightarrow> string"
  parseDate :: "string \<Rightarrow> js_date"
  castDateString :: "string \<Rightarrow> int option option"
  toISOString :: "int \<Rightarrow> string"
  pcreValid :: "string \<Rightarrow> bool"
  pcreTest :: "string \<Rightarrow> string \<Rightarrow> bool"

text \<open>
  Errors as values. \<open>CastError\<close> and \<open>ValidationError\<close> are raised by Mongoose,
  \<open>MongoServerError\<close> by the server; \<open>Error m\<close> is \<^verbatim>\<open>new Error(m)\<close> and
  \<open>ErrorWrapping p e\<close> is the \<^verbatim>\<open>new Error(`${p}: ${e.message}`)\<close> that every
  \<^verbatim>\<open>catch\<close> block of the service and of the resolvers throws.
\<close>

datatype js_error =
    CastError
  | ValidationError
  | MongoServerError
  | Error string
  | ErrorWrapping string js_error

section \<open>JavaScript values\<close>

text \<open>
  \<^verbatim>\<open>undefined\<close> and \<^verbatim>\<open>null\<close> are both falsy: \<open>given x\<close> is the value of \<open>x\<close>, if it
  has one.
\<close>

fun given :: "'a nullable option \<Rightarrow> 'a option" where
  "given None = None"
| "given (Some Null) = None"
| "given (Some (Val v)) = Some v"

text \<open>Truthiness of a string and of a \<^verbatim>\<open>Date | string\<close>: an object is always truthy.\<close>

definition truthy_string :: "string \<Rightarrow> bool" where
  "truthy_string s = (s \<noteq> [])"

fun truthy_date_input :: "date_input \<Rightarrow> bool" where
  "truthy_date_input (DateObj d) = True"
| "truthy_date_input (DateStr s) = truthy_string s"

text \<open>\<^verbatim>\<open>new Date(x)\<close> for \<^verbatim>\<open>x : Date | string\<close>.\<close>

fun newDate :: "env \<Rightarrow> date_input \<Rightarrow> js_date" where
  "newDate e (DateObj d) = d"
| "newDate e (DateStr s) = parseDate e s"

text \<open>
  JavaScript numbers are IEEE doubles. On integers an arithmetic operation yields the
  exact result rounded to the nearest double, ties to even: exact up to 53 bits, and
  the nearest multiple of \<open>2 ^ (bitlen - 53)\<close> beyond (no overflow below \<open>2 ^ 1024\<close>).
\<close>

function bitlen :: "int \<Rightarrow> nat" where
  "bitlen n = (if n \<le> 0 then 0 else Suc (bitlen (n div 2)))"
  by pat_completeness auto
termination
  by (relation "measure nat") auto

declare bitlen.simps [simp del]

definition round_to_double :: "int \<Rightarrow> int" where
  "round_to_double n =
     (let a = \<bar>n\<bar>;
          e = bitlen a - 53;
          q = a div 2 ^ e;
          r = a mod 2 ^ e;
          q' = (if 2 ^ e < 2 * r \<or> (2 * r = 2 ^ e \<and> odd q) then q + 1 else q)
      in sgn n * (q' * 2 ^ e))"

definition js_sub :: "int \<Rightarrow> int \<Rightarrow> int" where
  "js_sub a b = round_to_double (a - b)"

definition js_mul :: "int \<Rightarrow> int \<Rightarrow> int" where
  "js_mul a b = round_to_double (a * b)"

text \<open>\<^verbatim>\<open>x || d\<close> on an optional number: \<^verbatim>\<open>undefined\<close> and \<open>0\<close> are falsy.\<close>

definition or_default :: "int option \<Rightarrow> int \<Rightarrow> int" where
  "or_default x d = (case x of None \<Rightarrow> d | Some v \<Rightarrow> if v = 0 then d else v)"

text \<open>The values of a GraphQL \<^verbatim>\<open>Int\<close>: signed 32 bits.\<close>

definition is_int32 :: "int \<Rightarrow> bool" where
  "is_int32 v = (- (2 ^ 31) \<le> v \<and> v < 2 ^ 31)"

section \<open>Regular expressions: the modelled fragment\<close>

text \<open>
  The search clause hands the search string to the server as a regular expression
  with option \<^verbatim>\<open>i\<close>. The fragment modelled here: the pattern is made of ASCII
  characters (not NUL), each either an ordinary character or the dot. An ordinary
  character matches itself and its other case; the dot matches any one character but
  the line feed (option \<^verbatim>\<open>s\<close> is not set). The subject is any text. What the engine
  does with a pattern that has another metacharacter or a character outside ASCII,
  and whether its dot takes a carriage return, is left to the environment
  (\<open>pcreValid\<close>, \<open>pcreTest\<close>).
\<close>

definition ascii :: "char \<Rightarrow> bool" where
  "ascii c = (1 \<le> (of_char c :: nat) \<and> (of_char c :: nat) < 128)"

definition pcre_meta :: "char \<Rightarrow> bool" where
  "pcre_meta c = (c \<in> set [CHR 0x5C, CHR ''^'', CHR ''$'', CHR ''.'', CHR ''['', CHR '']'',
     CHR ''|'', CHR ''('', CHR '')'', CHR ''?'', CHR ''*'', CHR ''+'', CHR ''{'', CHR ''}''])"

text \<open>The other case of an ASCII letter; any other character is its own other case.\<close>

definition other_case :: "char \<Rightarrow> char" where
  "other_case c =
     (let n = (of_char c :: nat)
      in if 65 \<le> n \<and> n \<le> 90 then char_of (n + 32)
         else if 97 \<le> n \<and> n \<le> 122 then char_of (n - 32)
         else c)"

datatype re_item = Lit char | AnyChar

definition parse_fragment :: "string \<Rightarrow> re_item list option" where
  "parse_fragment p =
     (if list_all ascii p \<and> list_all (\<lambda>c. c = CHR ''.'' \<or> \<not> pcre_meta c) p
      then Some (map (\<lambda>c. if c = CHR ''.'' then AnyChar else Lit c) p)
      else None)"

fun item_matches :: "re_item \<Rightarrow> char \<Rightarrow> bool" where
  "item_matches (Lit c) d = (d = c \<or> d = other_case c)"
| "item_matches AnyChar d = (d \<noteq> CHR 0x0A)"

fun match_here :: "re_item list \<Rightarrow> string \<Rightarrow> bool" where
  "match_here [] s = True"
| "match_here (i # is) [] = False"
| "match_here (i # is) (c # cs) = (item_matches i c \<and> match_here is cs)"

text \<open>An unanchored pattern matches when it matches at some position of the subject.\<close>

fun search :: "re_item list \<Rightarrow> string \<Rightarrow> bool" where
  "search is [] = match_here is []"
| "search is (c # cs) = (match_here is (c # cs) \<or> search is cs)"

definition regexI_valid :: "env \<Rightarrow> string \<Rightarrow> bool" where
  "regexI_valid e p = (case parse_fragment p of Some is \<Rightarrow> True | None \<Rightarrow> pcreValid e p)"

definition regexI_test :: "env \<Rightarrow> string \<Rightarrow> string \<Rightarrow> bool" where
  "regexI_test e p s =
     (case parse_fragment p of
        Some is \<Rightarrow>
          if AnyChar \<in> set is \<and> CHR 0x0D \<in> set s then pcreTest e p s else search is s
      | None \<Rightarrow> pcreTest e p s)"

section \<open>The schema (src/models/Todo.ts)\<close>

text \<open>
  A character stands for one UTF-16 code unit below 256. \<open>trim\<close> is the setter of the
  \<^verbatim>\<open>trim: true\<close> paths; the white space of JavaScript in that range is TAB, LF, VT,
  FF, CR, SP and NBSP.
\<close>

definition is_space :: "char \<Rightarrow> bool" where
  "is_space c = ((of_char c :: nat) \<in> set [9, 10, 11, 12, 13, 32, 160])"

definition trim :: "string \<Rightarrow> string" where
  "trim s = rev (dropWhile is_space (rev (dropWhile is_space s)))"

text \<open>
  The validators of \<^verbatim>\<open>title\<close> (\<^verbatim>\<open>required\<close>, which an empty string fails, and
  \<^verbatim>\<open>maxlength: 200\<close>) and of \<^verbatim>\<open>description\<close> (\<^verbatim>\<open>maxlength: 1000\<close>). The enum
  validators of \<^verbatim>\<open>status\<close> and \<^verbatim>\<open>priority\<close> hold by typing.
\<close>

definition valid_title :: "string \<Rightarrow> bool" where
  "valid_title s = (s \<noteq> [] \<and> length s \<le> 200)"

definition valid_description :: "string \<Rightarrow> bool" where
  "valid_description s = (length s \<le> 1000)"

text \<open>A document that passes every validator of the schema.\<close>

definition valid_todo :: "todo \<Rightarrow> bool" where
  "valid_todo t =
     (valid_title (title t) \<and>
      (case description t of None \<Rightarrow> True | Some d \<Rightarrow> valid_description d))"

text \<open>The virtual \<^verbatim>\<open>isOverdue\<close>, read at time \<open>now\<close>.\<close>

definition isOverdue :: "int \<Rightarrow> todo \<Rightarrow> bool" where
  "isOverdue now t =
     (case dueDate t of
        None \<Rightarrow> False
      | Some d \<Rightarrow> if completed t then False else d < now)"

section \<open>Queries and their meaning\<close>

text \<open>
  The query object that the service builds: a key of the JavaScript object is present
  exactly when the field is not \<open>None\<close>. \<open>q_status\<close> and \<open>q_completed\<close> hold the value
  to be equalled, which can be \<^verbatim>\<open>null\<close>; \<open>q_tags\<close> holds the list of \<^verbatim>\<open>$in\<close>, \<open>q_or\<close>
  the clauses of \<^verbatim>\<open>$or\<close> (each a \<^verbatim>\<open>$regex\<close> with \<^verbatim>\<open>$options: "i"\<close> on one text
  field), \<open>q_dueDate\<close> the object with the optional bounds \<^verbatim>\<open>$lte\<close> and \<^verbatim>\<open>$gte\<close>.
\<close>

datatype text_field = Title | Description

datatype or_clause = RegexI text_field string

record date_range =
  r_lte :: "js_date option"
  r_gte :: "js_date option"

record query =
  q_status :: "TodoStatus nullable option"
  q_completed :: "bool nullable option"
  q_priority :: "TodoPriority option"
  q_tags :: "string list option"
  q_or :: "or_clause list option"
  q_dueDate :: "date_range option"

definition empty_range :: date_range where
  "empty_range = \<lparr>r_lte = None, r_gte = None\<rparr>"

definition empty_query :: query where
  "empty_query = \<lparr>q_status = None, q_completed = None, q_priority = None, q_tags = None,
     q_or = None, q_dueDate = None\<rparr>"


text \<open>\<^verbatim>\<open>{...query.dueDate}\<close>: spreading \<^verbatim>\<open>undefined\<close> gives the empty object.\<close>

definition spread :: "date_range option \<Rightarrow> date_range" where
  "spread r = (case r of None \<Rightarrow> empty_range | Some x \<Rightarrow> x)"

text \<open>
  Lines 49 to 83 of \<^verbatim>\<open>TodoService.getTodos\<close>: the filters are applied in the order of
  the source. \<^verbatim>\<open>status\<close> and \<^verbatim>\<open>completed\<close> are compared with \<^verbatim>\<open>undefined\<close>, so a
  \<^verbatim>\<open>null\<close> is written into the query; the filters themselves and the other five
  fields are tested for truthiness.
\<close>

definition getTodos_query :: "env \<Rightarrow> TodoFilters nullable option \<Rightarrow> query" where
  "getTodos_query e filters =
     (case given filters of
        None \<Rightarrow> empty_query
      | Some f \<Rightarrow>
          let q0 = empty_query;
              q1 = (case f_status f of None \<Rightarrow> q0 | Some v \<Rightarrow> q0\<lparr>q_status := Some v\<rparr>);
              q2 = (case f_completed f of None \<Rightarrow> q1 | Some v \<Rightarrow> q1\<lparr>q_completed := Some v\<rparr>);
              q3 = (case given (f_priority f) of
                      None \<Rightarrow> q2
                    | Some v \<Rightarrow> q2\<lparr>q_priority := Some v\<rparr>);
              q4 = (case given (f_tags f) of
                      None \<Rightarrow> q3
                    | Some ts \<Rightarrow> if 0 < length ts then q3\<lparr>q_tags := Some ts\<rparr> else q3);
              q5 = (case given (f_search f) of
                      None \<Rightarrow> q4
                    | Some s \<Rightarrow>
                        if truthy_string s
                        then q4\<lparr>q_or := Some [RegexI Title s, RegexI Description s]\<rparr>
                        else q4);
              q6 = (case given (f_dueDateBefore f) of
                      None \<Rightarrow> q5
                    | Some b \<Rightarrow>
                        if truthy_date_input b
                        then q5\<lparr>q_dueDate := Some ((spread (q_dueDate q5))\<lparr>r_lte := Some (newDate e b)\<rparr>)\<rparr>
                        else q5);
              q7 = (case given (f_dueDateAfter f) of
                      None \<Rightarrow> q6
                    | Some a \<Rightarrow>
                        if truthy_date_input a
                        then q6\<lparr>q_dueDate := Some ((spread (q_dueDate q6))\<lparr>r_gte := Some (newDate e a)\<rparr>)\<rparr>
                        else q6)
          in q7)"

text \<open>
  Lines 86 to 90 of \<^verbatim>\<open>TodoService.getTodos\<close>. \<open>pg_sortOrder\<close> is \<open>1\<close> or \<open>-1\<close>.
\<close>

record pagination =
  pg_page :: int
  pg_limit :: int
  pg_skip :: int
  pg_sortBy :: string
  pg_sortOrder :: int

definition getTodos_pagination :: "PaginationInput option \<Rightarrow> pagination" where
  "getTodos_pagination pagination =
     (let page = or_default (Option.bind pagination p_page) 1;
          limit = or_default (Option.bind pagination p_limit) 10;
          skip = js_mul (js_sub page 1) limit;
          sortBy = (case Option.bind pagination p_sortBy of
                      None \<Rightarrow> ''createdAt''
                    | Some s \<Rightarrow> if truthy_string s then s else ''createdAt'');
          sortOrder = (if Option.bind pagination p_sortOrder = Some ''asc'' then 1 else - 1)
      in \<lparr>pg_page = page, pg_limit = limit, pg_skip = skip, pg_sortBy = sortBy,
           pg_sortOrder = sortOrder\<rparr>)"

text \<open>
  What a query means on a document. An equality with \<^verbatim>\<open>null\<close> matches a document
  in which the path is missing or \<^verbatim>\<open>null\<close>, and every document has a \<^verbatim>\<open>status\<close>
  and a \<^verbatim>\<open>completed\<close>. A \<^verbatim>\<open>$regex\<close> on a missing field does not match;
  \<^verbatim>\<open>$in\<close> on the array \<^verbatim>\<open>tags\<close> matches when some tag is among the values; a range
  on \<^verbatim>\<open>dueDate\<close> does not match a document without one.
\<close>

fun matches_clause :: "env \<Rightarrow> or_clause \<Rightarrow> todo \<Rightarrow> bool" where
  "matches_clause e (RegexI Title p) t = regexI_test e p (title t)"
| "matches_clause e (RegexI Description p) t =
     (case description t of None \<Rightarrow> False | Some d \<Rightarrow> regexI_test e p d)"

definition matches_range :: "date_range \<Rightarrow> int option \<Rightarrow> bool" where
  "matches_range r due =
     (case due of
        None \<Rightarrow> False
      | Some d \<Rightarrow>
          (case r_lte r of None \<Rightarrow> True | Some None \<Rightarrow> False | Some (Some b) \<Rightarrow> d \<le> b) \<and>
          (case r_gte r of None \<Rightarrow> True | Some None \<Rightarrow> False | Some (Some a) \<Rightarrow> a \<le> d))"

definition matches_or :: "env \<Rightarrow> or_clause list \<Rightarrow> todo \<Rightarrow> bool" where
  "matches_or e cs t = list_ex (\<lambda>c. matches_clause e c t) cs"

definition matches :: "env \<Rightarrow> query \<Rightarrow> todo \<Rightarrow> bool" where
  "matches e q t =
     ((case q_status q of None \<Rightarrow> True | Some Null \<Rightarrow> False | Some (Val v) \<Rightarrow> status t = v) \<and>
      (case q_completed q of
         None \<Rightarrow> True
       | Some Null \<Rightarrow> False
       | Some (Val v) \<Rightarrow> completed t = v) \<and>
      (case q_priority q of None \<Rightarrow> True | Some v \<Rightarrow> priority t = v) \<and>
      (case q_tags q of None \<Rightarrow> True | Some vs \<Rightarrow> list_ex (\<lambda>x. x \<in> set vs) (tags t)) \<and>
      (case q_or q of None \<Rightarrow> True | Some cs \<Rightarrow> matches_or e cs t) \<and>
      (case q_dueDate q of None \<Rightarrow> True | Some r \<Rightarrow> matches_range r (dueDate t)))"

text \<open>
  A query is refused before any document is read: by Mongoose with a \<open>CastError\<close> when
  a bound of \<^verbatim>\<open>dueDate\<close> is the Invalid Date, by the server when a pattern is not a
  regular expression.
\<close>

fun clause_valid :: "env \<Rightarrow> or_clause \<Rightarrow> bool" where
  "clause_valid e (RegexI f p) = regexI_valid e p"

definition query_error :: "env \<Rightarrow> query \<Rightarrow> js_error option" where
  "query_error e q =
     (if (case q_dueDate q of
            None \<Rightarrow> False
          | Some r \<Rightarrow> r_lte r = Some None \<or> r_gte r = Some None)
      then Some CastError
      else if (case q_or q of None \<Rightarrow> False | Some cs \<Rightarrow> list_ex (\<lambda>c. \<not> clause_valid e c) cs)
      then Some MongoServerError
      else None)"

section \<open>The collection (Mongoose model functions)\<close>

text \<open>
  Every operation takes the collection and returns its result with the collection
  after it; a failed operation leaves the collection as it was. The reads and writes
  of one service call are taken on one state: no other request runs in between.
\<close>

fun replace_first :: "nat \<Rightarrow> todo \<Rightarrow> store \<Rightarrow> store" where
  "replace_first oid t' [] = []"
| "replace_first oid t' (t # ts) =
     (if todo_id t = oid then t' # ts else t # replace_first oid t' ts)"

fun remove_first :: "nat \<Rightarrow> store \<Rightarrow> store" where
  "remove_first oid [] = []"
| "remove_first oid (t # ts) = (if todo_id t = oid then ts else t # remove_first oid ts)"

text \<open>\<^verbatim>\<open>Todo.findById(id)\<close>: the id is cast first; the result is the document or \<^verbatim>\<open>null\<close>.\<close>

definition findById :: "env \<Rightarrow> string \<Rightarrow> store \<Rightarrow> js_error + todo option" where
  "findById e tid s =
     (case castObjectId e tid of
        None \<Rightarrow> Inl CastError
      | Some oid \<Rightarrow> Inr (find (\<lambda>t. todo_id t = oid) s))"

text \<open>\<^verbatim>\<open>Todo.countDocuments(query)\<close>.\<close>

definition countDocuments :: "env \<Rightarrow> query \<Rightarrow> store \<Rightarrow> js_error + nat" where
  "countDocuments e q s =
     (case query_error e q of
        Some err \<Rightarrow> Inl err
      | None \<Rightarrow> Inr (length (filter (matches e q) s)))"

text \<open>\<^verbatim>\<open>Todo.deleteMany(query)\<close>: the result carries \<^verbatim>\<open>deletedCount\<close>.\<close>

definition deleteMany :: "env \<Rightarrow> query \<Rightarrow> store \<Rightarrow> (js_error + nat) \<times> store" where
  "deleteMany e q s =
     (case query_error e q of
        Some err \<Rightarrow> (Inl err, s)
      | None \<Rightarrow> (Inr (length (filter (matches e q) s)), filter (\<lambda>t. \<not> matches e q t) s))"

text \<open>\<^verbatim>\<open>Todo.findByIdAndDelete(id)\<close>: the deleted document, or \<^verbatim>\<open>null\<close>.\<close>

definition findByIdAndDelete :: "env \<Rightarrow> string \<Rightarrow> store \<Rightarrow> (js_error + todo option) \<times> store" where
  "findByIdAndDelete e tid s =
     (case castObjectId e tid of
        None \<Rightarrow> (Inl CastError, s)
      | Some oid \<Rightarrow>
          (case find (\<lambda>t. todo_id t = oid) s of
             None \<Rightarrow> (Inr None, s)
           | Some t \<Rightarrow> (Inr (Some t), remove_first oid s)))"

text \<open>
  Mongoose's cast of an update value to the Date type: a valid \<^verbatim>\<open>Date\<close> is kept, the
  Invalid Date is refused, a string is cast as the environment says.
\<close>

fun castDate :: "env \<Rightarrow> date_input \<Rightarrow> js_error + int option" where
  "castDate e (DateObj None) = Inl CastError"
| "castDate e (DateObj (Some d)) = Inr (Some d)"
| "castDate e (DateStr s) =
     (case castDateString e s of None \<Rightarrow> Inl CastError | Some r \<Rightarrow> Inr r)"

text \<open>The cast of the \<^verbatim>\<open>dueDate\<close> of an update, when the update has one.\<close>

definition castDueDate :: "env \<Rightarrow> date_input option \<Rightarrow> js_error + int option option" where
  "castDueDate e x =
     (case x of
        None \<Rightarrow> Inr None
      | Some v \<Rightarrow> (case castDate e v of Inl err \<Rightarrow> Inl err | Inr d \<Rightarrow> Inr (Some d)))"

text \<open>
  The update validators (\<^verbatim>\<open>runValidators: true\<close>) run on the paths that the update
  sets, after the setters.
\<close>

definition validate_update :: "TodoUpdateInput \<Rightarrow> bool" where
  "validate_update d =
     ((case u_title d of None \<Rightarrow> True | Some v \<Rightarrow> valid_title v) \<and>
      (case u_description d of None \<Rightarrow> True | Some v \<Rightarrow> valid_description v))"

text \<open>
  \<^verbatim>\<open>$set\<close> on a document, at time \<open>now\<close>: the paths present in the update are
  written, and the \<^verbatim>\<open>timestamps\<close> option of the schema refreshes \<^verbatim>\<open>updatedAt\<close>.
  \<open>due\<close> is the cast \<^verbatim>\<open>dueDate\<close> of the update, if it has one.
\<close>

definition apply_set :: "TodoUpdateInput \<Rightarrow> int option option \<Rightarrow> int \<Rightarrow> todo \<Rightarrow> todo" where
  "apply_set d due now t =
     t\<lparr>title := (case u_title d of None \<Rightarrow> title t | Some v \<Rightarrow> v),
       description := (case u_description d of None \<Rightarrow> description t | Some v \<Rightarrow> Some v),
       status := (case u_status d of None \<Rightarrow> status t | Some v \<Rightarrow> v),
       priority := (case u_priority d of None \<Rightarrow> priority t | Some v \<Rightarrow> v),
       dueDate := (case due of None \<Rightarrow> dueDate t | Some v \<Rightarrow> v),
       tags := (case u_tags d of None \<Rightarrow> tags t | Some v \<Rightarrow> v),
       completed := (case u_completed d of None \<Rightarrow> completed t | Some v \<Rightarrow> v),
       updatedAt := now\<rparr>"

text \<open>
  \<^verbatim>\<open>Todo.findByIdAndUpdate(id, {$set: updateData}, {new: true, runValidators: true})\<close>:
  the id and the update are cast (the \<^verbatim>\<open>trim\<close> setters run on the update), the
  validators run, and only then is the document looked up; with \<^verbatim>\<open>new: true\<close> the
  result is the document after the update, or \<^verbatim>\<open>null\<close> when there is none.
\<close>

definition findByIdAndUpdate ::
    "env \<Rightarrow> int \<Rightarrow> string \<Rightarrow> TodoUpdateInput \<Rightarrow> store \<Rightarrow> (js_error + todo option) \<times> store" where
  "findByIdAndUpdate e now tid updateData s =
     (case castObjectId e tid of
        None \<Rightarrow> (Inl CastError, s)
      | Some oid \<Rightarrow>
          (case castDueDate e (u_dueDate updateData) of
             Inl err \<Rightarrow> (Inl err, s)
           | Inr due \<Rightarrow>
               let d = updateData\<lparr>u_title := map_option trim (u_title updateData),
                                  u_description := map_option trim (u_description updateData)\<rparr>
               in if \<not> validate_update d then (Inl ValidationError, s)
                  else (case find (\<lambda>t. todo_id t = oid) s of
                          None \<Rightarrow> (Inr None, s)
                        | Some t \<Rightarrow>
                            let t' = apply_set d due now t
                            in (Inr (Some t'), replace_first oid t' s))))"

text \<open>
  \<^verbatim>\<open>todo.save()\<close> on a document that was read from the collection and then
  modified: Mongoose validates the document against the schema (of its paths only
  \<^verbatim>\<open>title\<close> and \<^verbatim>\<open>description\<close> can fail), refreshes \<^verbatim>\<open>updatedAt\<close> and writes the
  document back.
\<close>

definition save :: "int \<Rightarrow> todo \<Rightarrow> store \<Rightarrow> (js_error + todo) \<times> store" where
  "save now t s =
     (if \<not> valid_todo t then (Inl ValidationError, s)
      else let t' = t\<lparr>updatedAt := now\<rparr>
           in (Inr t', replace_first (todo_id t) t' s))"

text \<open>
  \<^verbatim>\<open>Todo.aggregate([{$group: {_id: "$field", count: {$sum: 1}}}])\<close>: one item for
  each value that occurs, with the number of documents that hold it.
\<close>

definition aggregate_group :: "(todo \<Rightarrow> 'k) \<Rightarrow> store \<Rightarrow> ('k \<times> nat) list" where
  "aggregate_group f s =
     map (\<lambda>k. (k, length (filter (\<lambda>t. f t = k) s))) (remdups (map f s))"

section \<open>The service (src/services/TodoService.ts)\<close>

text \<open>
  Every method of the service is one \<^verbatim>\<open>try\<close> block whose \<^verbatim>\<open>catch\<close> rethrows the
  error wrapped under the method's own prefix. A method that returns \<^verbatim>\<open>null\<close>
  returns \<open>Inr None\<close>: that is a result, not an error.
\<close>

definition empty_update :: TodoUpdateInput where
  "empty_update = \<lparr>u_title = None, u_description = None, u_status = None, u_priority = None,
     u_dueDate = None, u_tags = None, u_completed = None\<rparr>"

text \<open>
  Lines 131 to 146 of \<^verbatim>\<open>updateTodo\<close>: \<^verbatim>\<open>updateData\<close> receives the fields of the input
  that are not \<^verbatim>\<open>undefined\<close>, in the order of the source; the status forced by
  \<^verbatim>\<open>completed: true\<close> is written last and so overrides a status of the input.
\<close>

definition updateTodo_data :: "TodoUpdateInput \<Rightarrow> TodoUpdateInput" where
  "updateTodo_data input =
     (let d0 = empty_update;
          d1 = (case u_title input of None \<Rightarrow> d0 | Some v \<Rightarrow> d0\<lparr>u_title := Some v\<rparr>);
          d2 = (case u_description input of None \<Rightarrow> d1 | Some v \<Rightarrow> d1\<lparr>u_description := Some v\<rparr>);
          d3 = (case u_status input of None \<Rightarrow> d2 | Some v \<Rightarrow> d2\<lparr>u_status := Some v\<rparr>);
          d4 = (case u_priority input of None \<Rightarrow> d3 | Some v \<Rightarrow> d3\<lparr>u_priority := Some v\<rparr>);
          d5 = (case u_dueDate input of None \<Rightarrow> d4 | Some v \<Rightarrow> d4\<lparr>u_dueDate := Some v\<rparr>);
          d6 = (case u_tags input of None \<Rightarrow> d5 | Some v \<Rightarrow> d5\<lparr>u_tags := Some v\<rparr>);
          d7 = (case u_completed input of
                  None \<Rightarrow> d6
                | Some c \<Rightarrow>
                    let d = d6\<lparr>u_completed := Some c\<rparr>
                    in if c then d\<lparr>u_status := Some COMPLETED\<rparr> else d)
      in d7)"

definition updateTodo ::
    "env \<Rightarrow> int \<Rightarrow> string \<Rightarrow> TodoUpdateInput \<Rightarrow> store \<Rightarrow> (js_error + todo option) \<times> store" where
  "updateTodo e now tid input s =
     (case findByIdAndUpdate e now tid (updateTodo_data input) s of
        (Inl err, s') \<Rightarrow> (Inl (ErrorWrapping ''Failed to update todo'' err), s')
      | (Inr todo, s') \<Rightarrow> (Inr todo, s'))"

definition deleteTodo :: "env \<Rightarrow> string \<Rightarrow> store \<Rightarrow> (js_error + bool) \<times> store" where
  "deleteTodo e tid s =
     (case findByIdAndDelete e tid s of
        (Inl err, s') \<Rightarrow> (Inl (ErrorWrapping ''Failed to delete todo'' err), s')
      | (Inr result, s') \<Rightarrow> (Inr (result \<noteq> None), s'))"

text \<open>\<^verbatim>\<open>result.deletedCount || 0\<close>: a count of zero is falsy and becomes \<open>0\<close>.\<close>

definition deleteCompletedTodos :: "env \<Rightarrow> store \<Rightarrow> (js_error + nat) \<times> store" where
  "deleteCompletedTodos e s =
     (case deleteMany e (empty_query\<lparr>q_completed := Some (Val True)\<rparr>) s of
        (Inl err, s') \<Rightarrow> (Inl (ErrorWrapping ''Failed to delete completed todos'' err), s')
      | (Inr deletedCount, s') \<Rightarrow> (Inr (if deletedCount = 0 then 0 else deletedCount), s'))"

definition toggleTodoStatus ::
    "env \<Rightarrow> int \<Rightarrow> string \<Rightarrow> store \<Rightarrow> (js_error + todo option) \<times> store" where
  "toggleTodoStatus e now tid s =
     (case findById e tid s of
        Inl err \<Rightarrow> (Inl (ErrorWrapping ''Failed to toggle todo status'' err), s)
      | Inr None \<Rightarrow> (Inr None, s)
      | Inr (Some todo) \<Rightarrow>
          let t1 = todo\<lparr>completed := \<not> completed todo\<rparr>;
              t2 = t1\<lparr>status := (if completed t1 then COMPLETED else TODO)\<rparr>
          in (case save now t2 s of
                (Inl err, s') \<Rightarrow> (Inl (ErrorWrapping ''Failed to toggle todo status'' err), s')
              | (Inr t', s') \<Rightarrow> (Inr (Some t'), s')))"

text \<open>
  \<^verbatim>\<open>getTodoStats\<close>: three counts and two groupings; \<^verbatim>\<open>reduce\<close> writes each item of a
  grouping into an object that starts empty.
\<close>

record stats =
  s_total :: nat
  s_completed :: nat
  s_pending :: nat
  s_byPriority :: "TodoPriority \<rightharpoonup> nat"
  s_byStatus :: "TodoStatus \<rightharpoonup> nat"

definition reduce_counts :: "('k \<times> nat) list \<Rightarrow> ('k \<rightharpoonup> nat)" where
  "reduce_counts items = foldl (\<lambda>acc item. acc(fst item \<mapsto> snd item)) Map.empty items"

definition getTodoStats :: "env \<Rightarrow> store \<Rightarrow> js_error + stats" where
  "getTodoStats e s =
     (case countDocuments e empty_query s of
        Inl err \<Rightarrow> Inl (ErrorWrapping ''Failed to fetch todo statistics'' err)
      | Inr total_n \<Rightarrow>
     (case countDocuments e (empty_query\<lparr>q_completed := Some (Val True)\<rparr>) s of
        Inl err \<Rightarrow> Inl (ErrorWrapping ''Failed to fetch todo statistics'' err)
      | Inr completed_n \<Rightarrow>
     (case countDocuments e (empty_query\<lparr>q_completed := Some (Val False)\<rparr>) s of
        Inl err \<Rightarrow> Inl (ErrorWrapping ''Failed to fetch todo statistics'' err)
      | Inr pending_n \<Rightarrow>
          Inr \<lparr>s_total = total_n, s_completed = completed_n, s_pending = pending_n,
               s_byPriority = reduce_counts (aggregate_group priority s),
               s_byStatus = reduce_counts (aggregate_group status s)\<rparr>)))"

section \<open>The resolver of the update mutation (src/unnamed/part_000)\<close>

text \<open>
  \<^verbatim>\<open>formatTodoResponse\<close>: the fields of \<^verbatim>\<open>todo.toObject()\<close>, virtuals included, with
  \<^verbatim>\<open>id\<close> and the three dates as strings. \<open>now\<close> is the time at which the virtual
  \<^verbatim>\<open>isOverdue\<close> is read.
\<close>

record todo_response =
  r_oid :: nat
  r_id :: string
  r_title :: string
  r_description :: "string option"
  r_status :: TodoStatus
  r_priority :: TodoPriority
  r_dueDate :: "string option"
  r_tags :: "string list"
  r_completed :: bool
  r_isOverdue :: bool
  r_createdAt :: "string option"
  r_updatedAt :: "string option"

definition formatTodoResponse :: "env \<Rightarrow> int \<Rightarrow> todo \<Rightarrow> todo_response" where
  "formatTodoResponse e now t =
     \<lparr>r_oid = todo_id t, r_id = oidToString e (todo_id t), r_title = title t,
      r_description = description t, r_status = status t, r_priority = priority t,
      r_dueDate = map_option (toISOString e) (dueDate t), r_tags = tags t,
      r_completed = completed t, r_isOverdue = isOverdue now t,
      r_createdAt = Some (toISOString e (createdAt t)),
      r_updatedAt = Some (toISOString e (updatedAt t))\<rparr>"

text \<open>
  \<^verbatim>\<open>resolvers.Mutation.updateTodo\<close>: the \<^verbatim>\<open>throw new Error("Todo not found")\<close> stands
  inside the \<^verbatim>\<open>try\<close> block, so the \<^verbatim>\<open>catch\<close> of the resolver wraps it like any other
  error. \<open>now\<close> is the time of the update, \<open>now'\<close> the time of the response.
\<close>

definition resolver_updateTodo ::
    "env \<Rightarrow> int \<Rightarrow> int \<Rightarrow> string \<Rightarrow> TodoUpdateInput \<Rightarrow> store \<Rightarrow> (js_error + todo_response) \<times> store" where
  "resolver_updateTodo e now now' tid input s =
     (case updateTodo e now tid input s of
        (Inl err, s') \<Rightarrow> (Inl (ErrorWrapping ''Failed to update todo'' err), s')
      | (Inr None, s') \<Rightarrow>
          (Inl (ErrorWrapping ''Failed to update todo'' (Error ''Todo not found'')), s')
      | (Inr (Some todo), s') \<Rightarrow> (Inr (formatTodoResponse e now' todo), s'))"

section \<open>Notions of the specification, and data for the worked examples\<close>

text \<open>
  The specification's reading of the search filter: the search string occurs in the
  text as a contiguous substring, once the upper-case ASCII letters of both are
  replaced by their lower-case letters.
\<close>

definition lower :: "char \<Rightarrow> char" where
  "lower c = (let n = (of_char c :: nat) in if 65 \<le> n \<and> n \<le> 90 then char_of (n + 32) else c)"

definition ci_substring :: "string \<Rightarrow> string \<Rightarrow> bool" where
  "ci_substring s x = sublist (map lower s) (map lower x)"


text \<open>
  An update input that Mongoose accepts: its \<^verbatim>\<open>dueDate\<close> can be cast, and its
  trimmed \<^verbatim>\<open>title\<close> and \<^verbatim>\<open>description\<close> pass the validators of the schema.
\<close>

definition input_accepted :: "env \<Rightarrow> TodoUpdateInput \<Rightarrow> bool" where
  "input_accepted e input =
     (\<not> isl (castDueDate e (u_dueDate input)) \<and>
      (case u_title input of None \<Rightarrow> True | Some v \<Rightarrow> valid_title (trim v)) \<and>
      (case u_description input of None \<Rightarrow> True | Some v \<Rightarrow> valid_description (trim v)))"

text \<open>
  A small environment for the worked examples: two id strings, one date string, and
  an engine that rejects every pattern outside the modelled fragment.
\<close>

definition test_env :: env where
  "test_env =
     \<lparr>castObjectId = (\<lambda>x. if x = ''65f000000000000000000001'' then Some 1
                          else if x = ''65f000000000000000000002'' then Some 2 else None),
      oidToString = (\<lambda>n. if n = 1 then ''65f000000000000000000001''
                         else ''65f000000000000000000002''),
      parseDate = (\<lambda>x. if x = ''1970-01-01T00:00:00.000Z'' then Some 0 else None),
      castDateString = (\<lambda>x. if x = [] then Some None
                            else if x = ''1970-01-01T00:00:00.000Z'' then Some (Some 0)
                            else None),
      toISOString = (\<lambda>d. ''1970-01-01T00:00:00.000Z''),
      pcreValid = (\<lambda>p. False),
      pcreTest = (\<lambda>p x. False)\<rparr>"

text \<open>
  A document as \<^verbatim>\<open>createTodo\<close> leaves it, a second document in progress, the id
  string of the first, and inputs that supply nothing.
\<close>

definition fresh_todo :: todo where
  "fresh_todo =
     \<lparr>todo_id = 1, title = ''Write the report'', description = None, status = TODO,
      priority = MEDIUM, dueDate = None, tags = [], completed = False, createdAt = 0,
      updatedAt = 0\<rparr>"

definition other_todo :: todo where
  "other_todo =
     \<lparr>todo_id = 2, title = ''Call the bank'', description = Some ''before noon'',
      status = IN_PROGRESS, priority = HIGH, dueDate = Some 0, tags = [''errand''],
      completed = False, createdAt = 0, updatedAt = 0\<rparr>"

definition id_one :: string where
  "id_one = ''65f000000000000000000001''"

definition no_filters :: TodoFilters where
  "no_filters = \<lparr>f_status = None, f_completed = None, f_priority = None, f_tags = None,
     f_search = None, f_dueDateBefore = None, f_dueDateAfter = None\<rparr>"

definition no_pagination :: PaginationInput where
  "no_pagination = \<lparr>p_page = None, p_limit = None, p_sortBy = None, p_sortOrder = None\<rparr>"

section \<open>Auxiliary facts\<close>

subsection \<open>Numbers\<close>

lemma bitlen_le: "a < 2 ^ k \<Longrightarrow> bitlen a \<le> k"
proof (induction k arbitrary: a)
  case 0
  then show ?case by (simp add: bitlen.simps)
next
  case (Suc k)
  from Suc.prems have "a div 2 < 2 ^ k" by simp
  then have "bitlen (a div 2) \<le> k" by (rule Suc.IH)
  then show ?case by (subst bitlen.simps) simp
qed

lemma round_to_double_exact:
  assumes "\<bar>n\<bar> < 2 ^ 53"
  shows "round_to_double n = n"
proof -
  from assms have "bitlen \<bar>n\<bar> - 53 = 0" using bitlen_le by simp
  then show ?thesis by (simp add: round_to_double_def Let_def sgn_mult_abs)
qed

lemma js_sub_one_int32:
  assumes "is_int32 a"
  shows "js_sub a 1 = a - 1"
proof -
  have "(2::int) ^ 31 + 1 < 2 ^ 53" by simp
  with assms have "\<bar>a - 1\<bar> < 2 ^ 53" unfolding is_int32_def by linarith
  then show ?thesis unfolding js_sub_def by (rule round_to_double_exact)
qed

lemma skip_exact:
  assumes "is_int32 page" and "\<bar>(page - 1) * limit\<bar> < 2 ^ 53"
  shows "js_mul (js_sub page 1) limit = (page - 1) * limit"
  using assms by (simp add: js_sub_one_int32 js_mul_def round_to_double_exact)

subsection \<open>Queries\<close>

lemma query_error_empty: "query_error e empty_query = None"
  by (simp add: query_error_def empty_query_def)

lemma query_error_completed: "query_error e (empty_query\<lparr>q_completed := c\<rparr>) = None"
  by (simp add: query_error_def empty_query_def)

lemma matches_empty: "matches e empty_query = (\<lambda>t. True)"
  by (rule ext) (simp add: matches_def empty_query_def)

lemma matches_completed:
  "matches e (empty_query\<lparr>q_completed := Some (Val c)\<rparr>) = (\<lambda>t. completed t = c)"
  by (rule ext) (simp add: matches_def empty_query_def)

lemma q_or_search:
  "q_or (getTodos_query e (Some (Val f))) =
     (case given (f_search f) of
        None \<Rightarrow> None
      | Some x \<Rightarrow> if x = [] then None else Some [RegexI Title x, RegexI Description x])"
  by (simp add: getTodos_query_def Let_def empty_query_def truthy_string_def split: option.split)

subsection \<open>The fragment of regular expressions\<close>

lemma code_lower:
  "(of_char (lower c) :: nat) =
     (if 65 \<le> (of_char c :: nat) \<and> (of_char c :: nat) \<le> 90 then of_char c + 32
      else of_char c)"
  by (simp add: lower_def Let_def)

lemma code_other_case:
  "(of_char (other_case c) :: nat) =
     (if 65 \<le> (of_char c :: nat) \<and> (of_char c :: nat) \<le> 90 then of_char c + 32
      else if 97 \<le> (of_char c :: nat) \<and> (of_char c :: nat) \<le> 122 then of_char c - 32
      else of_char c)"
  by (auto simp: other_case_def Let_def intro: mod_less)

lemma char_eq_code: "(c = d) = ((of_char c :: nat) = of_char d)"
  by simp

text \<open>
  Matching a character or its other case is the same as agreeing once both are put in
  lower case.
\<close>

lemma caseless_iff: "(d = c \<or> d = other_case c) \<longleftrightarrow> lower c = lower d"
  unfolding char_eq_code [of d c] char_eq_code [of d "other_case c"]
    char_eq_code [of "lower c" "lower d"] code_lower code_other_case
  by (auto split: if_splits)

lemma match_here_lits: "match_here (map Lit p) x = prefix (map lower p) (map lower x)"
proof (induction p arbitrary: x)
  case Nil
  show ?case by simp
next
  case (Cons c p)
  show ?case by (cases x) (simp_all add: Cons.IH caseless_iff)
qed

lemma search_lits: "search (map Lit p) x = sublist (map lower p) (map lower x)"
proof (induction x)
  case Nil
  show ?case by (cases p) simp_all
next
  case (Cons c x)
  show ?case by (simp add: Cons.IH match_here_lits sublist_Cons_right)
qed

lemma parse_fragment_lits:
  assumes "list_all ascii p" and "list_all (\<lambda>c. \<not> pcre_meta c) p"
  shows "parse_fragment p = Some (map Lit p)"
proof -
  have dot: "pcre_meta (CHR ''.'')" by (simp add: pcre_meta_def)
  from assms(2) have "\<forall>c\<in>set p. c \<noteq> CHR ''.''" using dot by (auto simp: list_all_iff)
  with assms show ?thesis by (auto simp: parse_fragment_def list_all_iff)
qed

lemma regexI_test_lits:
  assumes "list_all ascii p" and "list_all (\<lambda>c. \<not> pcre_meta c) p"
  shows "regexI_test e p x = ci_substring p x"
proof -
  have "AnyChar \<notin> set (map Lit p)" by auto
  with assms show ?thesis
    by (simp add: regexI_test_def parse_fragment_lits search_lits ci_substring_def)
qed

subsection \<open>The collection\<close>

lemma find_id: "find (\<lambda>t. todo_id t = oid) s = Some t \<Longrightarrow> todo_id t = oid"
  by (induction s) (auto split: if_splits)

lemma find_None_iff: "find (\<lambda>t. todo_id t = oid) s = None \<longleftrightarrow> oid \<notin> todo_id ` set s"
  by (induction s) auto


lemma filter_replace_first:
  "todo_id t' = oid \<Longrightarrow>
   filter (\<lambda>t. todo_id t \<noteq> oid) (replace_first oid t' s) = filter (\<lambda>t. todo_id t \<noteq> oid) s"
  by (induction s) auto

lemma filter_remove_first:
  "filter (\<lambda>t. todo_id t \<noteq> oid) (remove_first oid s) = filter (\<lambda>t. todo_id t \<noteq> oid) s"
  by (induction s) auto

lemma reduce_counts_acc:
  "foldl (\<lambda>acc item. acc(fst item \<mapsto> snd item)) m (map (\<lambda>k. (k, g k)) ks) k =
     (if k \<in> set ks then Some (g k) else m k)"
  by (induction ks arbitrary: m) auto

lemma reduce_counts_group:
  "reduce_counts (aggregate_group f s) k =
     (if k \<in> f ` set s then Some (length (filter (\<lambda>t. f t = k) s)) else None)"
  by (simp add: reduce_counts_def aggregate_group_def reduce_counts_acc)

subsection \<open>The update\<close>

lemma updateTodo_data_fields:
  "u_title (updateTodo_data input) = u_title input"
  "u_description (updateTodo_data input) = u_description input"
  "u_status (updateTodo_data input) =
     (if u_completed input = Some True then Some COMPLETED else u_status input)"
  "u_priority (updateTodo_data input) = u_priority input"
  "u_dueDate (updateTodo_data input) = u_dueDate input"
  "u_tags (updateTodo_data input) = u_tags input"
  "u_completed (updateTodo_data input) = u_completed input"
  by (simp_all add: updateTodo_data_def Let_def empty_update_def split: option.split)

lemma apply_set_id: "todo_id (apply_set d due now t) = todo_id t"
  by (simp add: apply_set_def)

lemma accepted_validates:
  assumes "input_accepted e input"
  shows "validate_update ((updateTodo_data input)
           \<lparr>u_title := map_option trim (u_title (updateTodo_data input)),
            u_description := map_option trim (u_description (updateTodo_data input))\<rparr>)"
  using assms
  by (simp add: input_accepted_def validate_update_def updateTodo_data_fields split: option.splits)

lemma accepted_due:
  assumes "input_accepted e input"
  obtains due where "castDueDate e (u_dueDate (updateTodo_data input)) = Inr due"
  using assms by (cases "castDueDate e (u_dueDate input)")
    (simp_all add: input_accepted_def updateTodo_data_fields)

lemma updateTodo_absent:
  assumes "castObjectId e tid = Some oid" and "find (\<lambda>t. todo_id t = oid) s = None"
    and "input_accepted e input"
  shows "updateTodo e now tid input s = (Inr None, s)"
proof -
  from assms(3) obtain due where "castDueDate e (u_dueDate (updateTodo_data input)) = Inr due"
    by (rule accepted_due)
  with assms(1,2) accepted_validates[OF assms(3)] show ?thesis
    by (simp add: updateTodo_def findByIdAndUpdate_def Let_def)
qed

lemma updateTodo_found:
  assumes "castObjectId e tid = Some oid" and "find (\<lambda>t. todo_id t = oid) s = Some old"
    and "input_accepted e input"
  shows "\<exists>t. updateTodo e now tid input s = (Inr (Some t), replace_first oid t s) \<and>
           todo_id t = oid \<and>
           status t = (if u_completed input = Some True then COMPLETED
                       else case u_status input of None \<Rightarrow> status old | Some v \<Rightarrow> v) \<and>
           completed t = (case u_completed input of None \<Rightarrow> completed old | Some c \<Rightarrow> c)"
proof -
  from assms(3) obtain due where "castDueDate e (u_dueDate (updateTodo_data input)) = Inr due"
    by (rule accepted_due)
  with assms(1,2) accepted_validates[OF assms(3)] find_id[OF assms(2)] show ?thesis
    by (simp add: updateTodo_def findByIdAndUpdate_def Let_def apply_set_def
        updateTodo_data_fields)
qed

lemma updateTodo_rejected:
  assumes "castObjectId e tid = Some oid" and "\<not> input_accepted e input"
  shows "\<exists>err. updateTodo e now tid input s = (Inl err, s)"
  using assms
  by (auto simp: updateTodo_def findByIdAndUpdate_def Let_def input_accepted_def
      validate_update_def updateTodo_data_fields split: sum.splits option.splits)

lemma updateTodo_frame:
  "castObjectId e tid = Some oid \<Longrightarrow>
   filter (\<lambda>t. todo_id t \<noteq> oid) (snd (updateTodo e now tid input s)) =
   filter (\<lambda>t. todo_id t \<noteq> oid) s"
  by (auto simp: updateTodo_def findByIdAndUpdate_def Let_def filter_replace_first apply_set_id
      dest: find_id split: option.splits sum.splits)

lemma updateTodo_unchanged:
  "castObjectId e tid = None \<or>
   (\<exists>oid. castObjectId e tid = Some oid \<and> find (\<lambda>t. todo_id t = oid) s = None) \<Longrightarrow>
   snd (updateTodo e now tid input s) = s"
  by (auto simp: updateTodo_def findByIdAndUpdate_def Let_def split: option.splits sum.splits)

subsection \<open>Toggle and delete\<close>



lemma toggle_frame:
  "castObjectId e tid = Some oid \<Longrightarrow>
   filter (\<lambda>t. todo_id t \<noteq> oid) (snd (toggleTodoStatus e now tid s)) =
   filter (\<lambda>t. todo_id t \<noteq> oid) s"
  by (auto simp: toggleTodoStatus_def findById_def save_def Let_def filter_replace_first
      dest: find_id split: option.splits sum.splits)

lemma toggle_unchanged:
  "castObjectId e tid = None \<or>
   (\<exists>oid. castObjectId e tid = Some oid \<and> find (\<lambda>t. todo_id t = oid) s = None) \<Longrightarrow>
   snd (toggleTodoStatus e now tid s) = s"
  by (auto simp: toggleTodoStatus_def findById_def split: option.splits sum.splits)

lemma deleteTodo_frame:
  "castObjectId e tid = Some oid \<Longrightarrow>
   filter (\<lambda>t. todo_id t \<noteq> oid) (snd (deleteTodo e tid s)) =
   filter (\<lambda>t. todo_id t \<noteq> oid) s"
  by (auto simp: deleteTodo_def findByIdAndDelete_def filter_remove_first split: option.splits)

lemma deleteTodo_unchanged:
  "castObjectId e tid = None \<or>
   (\<exists>oid. castObjectId e tid = Some oid \<and> find (\<lambda>t. todo_id t = oid) s = None) \<Longrightarrow>
   snd (deleteTodo e tid s) = s"
  by (auto simp: deleteTodo_def findByIdAndDelete_def split: option.splits sum.splits)

section \<open>Statistics and bulk deletion\<close>

text \<open>
  Claim C7. For every state of the collection \<^verbatim>\<open>getTodoStats\<close> returns, without an
  error, \<open>total\<close> = the number of documents, \<open>completed\<close> = the number of documents with
  \<open>completed = true\<close> and \<open>pending\<close> = the number of documents with \<open>completed = false\<close>,
  whatever their status; on the empty collection it returns three zeros and two
  mappings with no key at all.
\<close>

theorem getTodoStats_counts:
  "(\<exists>st. getTodoStats e s = Inr st \<and>
         s_total st = length s \<and>
         s_completed st = length (filter (\<lambda>t. completed t = True) s) \<and>
         s_pending st = length (filter (\<lambda>t. completed t = False) s)) \<and>
   getTodoStats e [] =
     Inr \<lparr>s_total = 0, s_completed = 0, s_pending = 0, s_byPriority = Map.empty,
          s_byStatus = Map.empty\<rparr>"
  by (simp add: getTodoStats_def countDocuments_def query_error_completed query_error_empty
      matches_empty matches_completed aggregate_group_def reduce_counts_def)

text \<open>
  On a collection of two documents, neither completed and one of them in progress: both
  count as pending.
\<close>

theorem getTodoStats_counts_witness:
  "status other_todo = IN_PROGRESS \<and> completed other_todo = False \<and>
   (\<exists>st. getTodoStats test_env [fresh_todo, other_todo] = Inr st \<and>
         s_total st = 2 \<and> s_completed st = 0 \<and> s_pending st = 2)"
  using getTodoStats_counts [of test_env "[fresh_todo, other_todo]"]
  by (auto simp: fresh_todo_def other_todo_def numeral_2_eq_2)

text \<open>
  The two mappings are sparse on every collection: a key is present exactly when some
  document holds the value, and it maps to the number of those documents.
\<close>

lemma getTodoStats_sparse:
  "\<exists>st. getTodoStats e s = Inr st \<and>
     (\<forall>k. s_byPriority st k =
        (if k \<in> priority ` set s then Some (length (filter (\<lambda>t. priority t = k) s)) else None)) \<and>
     (\<forall>k. s_byStatus st k =
        (if k \<in> status ` set s then Some (length (filter (\<lambda>t. status t = k) s)) else None))"
  by (simp add: getTodoStats_def countDocuments_def query_error_completed query_error_empty
      reduce_counts_group)

text \<open>
  Claim C8. For every state of the collection \<^verbatim>\<open>deleteCompletedTodos\<close> removes exactly
  the documents with \<open>completed = true\<close> and returns their number; when no document is
  completed it returns \<open>0\<close>, raises nothing and leaves the collection as it was.
\<close>

theorem deleteCompletedTodos_exact:
  "deleteCompletedTodos e s =
     (Inr (length (filter (\<lambda>t. completed t = True) s)), filter (\<lambda>t. completed t = False) s) \<and>
   ((\<forall>t \<in> set s. completed t = False) \<longrightarrow> deleteCompletedTodos e s = (Inr 0, s))"
  by (simp add: deleteCompletedTodos_def deleteMany_def query_error_completed matches_completed)

theorem deleteCompletedTodos_exact_witness:
  "completed fresh_todo = False \<and> completed other_todo = False \<and>
   deleteCompletedTodos test_env [fresh_todo, other_todo] = (Inr 0, [fresh_todo, other_todo]) \<and>
   deleteCompletedTodos test_env [fresh_todo\<lparr>completed := True\<rparr>, other_todo] =
     (Inr 1, [other_todo])"
  using deleteCompletedTodos_exact [of test_env "[fresh_todo, other_todo]"]
    deleteCompletedTodos_exact [of test_env "[fresh_todo\<lparr>completed := True\<rparr>, other_todo]"]
  by (simp add: fresh_todo_def other_todo_def)

section \<open>The list operation: pagination\<close>

text \<open>
  Claim C2, as stated, has both numbers coerced to at least \<open>1\<close>. The code only replaces
  a falsy number: with \<^verbatim>\<open>page: -1\<close> the page stays \<open>-1\<close> and the skip is negative.
\<close>

theorem getTodos_pagination_counterexample:
  "pg_page (getTodos_pagination (Some (no_pagination\<lparr>p_page := Some (- 1)\<rparr>))) = - 1 \<and>
   pg_skip (getTodos_pagination (Some (no_pagination\<lparr>p_page := Some (- 1)\<rparr>))) = - 20 \<and>
   \<not> 1 \<le> pg_page (getTodos_pagination (Some (no_pagination\<lparr>p_page := Some (- 1)\<rparr>)))"
proof -
  have "js_mul (js_sub (- 1) 1) 10 = - 20"
    by (subst skip_exact) (simp_all add: is_int32_def)
  then show ?thesis
    by (simp add: getTodos_pagination_def Let_def or_default_def no_pagination_def)
qed

text \<open>
  Claim C2 (amended). For every pagination input the page is the given page, or \<open>1\<close>
  when it is absent or \<open>0\<close>; the limit is the given limit, or \<open>10\<close> when it is absent
  or \<open>0\<close>; any other number, a negative one included, is used as it is. The skip is the
  JavaScript product \<^verbatim>\<open>(page - 1) * limit\<close>, which is the exact product whenever the
  page is a GraphQL \<^verbatim>\<open>Int\<close> and the product is below \<open>2 ^ 53\<close> in absolute value. Page
  \<open>2\<close> with limit \<open>5\<close> gives skip \<open>5\<close> and limit \<open>5\<close>; no pagination gives skip \<open>0\<close> and
  limit \<open>10\<close>.
\<close>

theorem getTodos_pagination_amended:
  "pg_page (getTodos_pagination pagination) =
     (case Option.bind pagination p_page of None \<Rightarrow> 1 | Some v \<Rightarrow> if v = 0 then 1 else v) \<and>
   pg_limit (getTodos_pagination pagination) =
     (case Option.bind pagination p_limit of None \<Rightarrow> 10 | Some v \<Rightarrow> if v = 0 then 10 else v) \<and>
   pg_skip (getTodos_pagination pagination) =
     js_mul (js_sub (pg_page (getTodos_pagination pagination)) 1)
       (pg_limit (getTodos_pagination pagination)) \<and>
   (is_int32 (pg_page (getTodos_pagination pagination)) \<and>
    \<bar>(pg_page (getTodos_pagination pagination) - 1) * pg_limit (getTodos_pagination pagination)\<bar>
      < 2 ^ 53 \<longrightarrow>
    pg_skip (getTodos_pagination pagination) =
      (pg_page (getTodos_pagination pagination) - 1) * pg_limit (getTodos_pagination pagination)) \<and>
   pg_skip (getTodos_pagination (Some (no_pagination\<lparr>p_page := Some 2, p_limit := Some 5\<rparr>))) = 5 \<and>
   pg_limit (getTodos_pagination (Some (no_pagination\<lparr>p_page := Some 2, p_limit := Some 5\<rparr>))) = 5 \<and>
   pg_skip (getTodos_pagination None) = 0 \<and>
   pg_limit (getTodos_pagination None) = 10"
proof -
  have a: "js_mul (js_sub 2 1) 5 = 5"
    by (subst skip_exact) (simp_all add: is_int32_def)
  have b: "js_mul (js_sub 1 1) 10 = 0"
    by (subst skip_exact) (simp_all add: is_int32_def)
  have p: "pg_page (getTodos_pagination pagination) = or_default (Option.bind pagination p_page) 1"
    and l: "pg_limit (getTodos_pagination pagination) = or_default (Option.bind pagination p_limit) 10"
    and k: "pg_skip (getTodos_pagination pagination) =
       js_mul (js_sub (pg_page (getTodos_pagination pagination)) 1)
         (pg_limit (getTodos_pagination pagination))"
    by (simp_all add: getTodos_pagination_def Let_def)
  have 1: "pg_page (getTodos_pagination pagination) =
     (case Option.bind pagination p_page of None \<Rightarrow> 1 | Some v \<Rightarrow> if v = 0 then 1 else v)"
    by (simp add: p or_default_def)
  have 2: "pg_limit (getTodos_pagination pagination) =
     (case Option.bind pagination p_limit of None \<Rightarrow> 10 | Some v \<Rightarrow> if v = 0 then 10 else v)"
    by (simp add: l or_default_def)
  have 4: "is_int32 (pg_page (getTodos_pagination pagination)) \<and>
    \<bar>(pg_page (getTodos_pagination pagination) - 1) * pg_limit (getTodos_pagination pagination)\<bar>
      < 2 ^ 53 \<longrightarrow>
    pg_skip (getTodos_pagination pagination) =
      (pg_page (getTodos_pagination pagination) - 1) * pg_limit (getTodos_pagination pagination)"
    using k skip_exact by simp
  have 5: "pg_skip (getTodos_pagination (Some (no_pagination\<lparr>p_page := Some 2, p_limit := Some 5\<rparr>))) = 5"
    "pg_limit (getTodos_pagination (Some (no_pagination\<lparr>p_page := Some 2, p_limit := Some 5\<rparr>))) = 5"
    "pg_skip (getTodos_pagination None) = 0"
    "pg_limit (getTodos_pagination None) = 10"
    by (simp_all add: getTodos_pagination_def Let_def or_default_def no_pagination_def a b)
  from 1 2 k 4 5 show ?thesis by blast
qed

text \<open>Page \<open>3\<close> with limit \<open>20\<close>: both in range, and the skip is \<open>40\<close>.\<close>

theorem getTodos_pagination_amended_witness:
  "is_int32 3 \<and> \<bar>(3 - 1) * 20 :: int\<bar> < 2 ^ 53 \<and>
   pg_page (getTodos_pagination (Some (no_pagination\<lparr>p_page := Some 3, p_limit := Some 20\<rparr>))) = 3 \<and>
   pg_limit (getTodos_pagination (Some (no_pagination\<lparr>p_page := Some 3, p_limit := Some 20\<rparr>))) = 20 \<and>
   pg_skip (getTodos_pagination (Some (no_pagination\<lparr>p_page := Some 3, p_limit := Some 20\<rparr>))) = 40"
proof -
  let ?pg = "getTodos_pagination (Some (no_pagination\<lparr>p_page := Some 3, p_limit := Some 20\<rparr>))"
  have p: "pg_page ?pg = 3" and l: "pg_limit ?pg = 20"
    by (simp_all add: getTodos_pagination_def Let_def or_default_def no_pagination_def)
  have i: "is_int32 3" by (simp add: is_int32_def)
  from getTodos_pagination_amended [of "Some (no_pagination\<lparr>p_page := Some 3, p_limit := Some 20\<rparr>)"]
  have "is_int32 (pg_page ?pg) \<and> \<bar>(pg_page ?pg - 1) * pg_limit ?pg\<bar> < 2 ^ 53 \<longrightarrow>
        pg_skip ?pg = (pg_page ?pg - 1) * pg_limit ?pg"
    by blast
  with p l i show ?thesis by simp
qed

text \<open>
  Beyond \<open>2 ^ 53\<close> the product is rounded: the largest page with the largest limit of a
  GraphQL \<^verbatim>\<open>Int\<close> give a skip that is not the exact product \<open>4611686011984936962\<close>.
\<close>

lemma getTodos_pagination_rounded:
  "pg_skip (getTodos_pagination
      (Some (no_pagination\<lparr>p_page := Some 2147483647, p_limit := Some 2147483647\<rparr>))) =
   4611686011984936960"
  by code_simp

section \<open>The list operation: the query\<close>







section \<open>The list operation: the search clause\<close>

text \<open>
  Claim C3, as stated, reads the search string as a substring. The code passes it as
  \<^verbatim>\<open>$regex\<close>, unescaped: the search string \<^verbatim>\<open>.\<close> matches a document in whose title
  and description no dot occurs.
\<close>

theorem search_clause_counterexample:
  "matches test_env
     (getTodos_query test_env (Some (Val (no_filters\<lparr>f_search := Some (Val ''.'')\<rparr>))))
     fresh_todo \<and>
   query_error test_env
     (getTodos_query test_env (Some (Val (no_filters\<lparr>f_search := Some (Val ''.'')\<rparr>))))
     = None \<and>
   \<not> ci_substring ''.'' (title fresh_todo) \<and>
   description fresh_todo = None"
proof -
  have "\<not> ci_substring ''.'' (title fresh_todo)"
    by code_simp
  moreover have "regexI_test test_env ''.'' (title fresh_todo)"
    by code_simp
  moreover have "regexI_valid test_env ''.''"
    by code_simp
  ultimately show ?thesis
    by (simp add: getTodos_query_def Let_def no_filters_def truthy_string_def empty_query_def
        matches_def matches_or_def query_error_def fresh_todo_def)
qed

text \<open>
  Claim C3 (amended). For every non-empty search string and every document, the
  document matches the search clause if and only if the string, run as a regular
  expression with option \<^verbatim>\<open>i\<close>, matches the title or the description (a document
  without a description can only match by its title). When the search string is made
  of ASCII characters none of which is a metacharacter of regular expressions, that
  is the case if and only if the string occurs, ASCII letters compared without regard
  to case, as a substring of the title or of the description.
\<close>

theorem search_clause_amended:
  assumes "f_search f = Some (Val x)" and "x \<noteq> []"
  shows "\<exists>cs. q_or (getTodos_query e (Some (Val f))) = Some cs \<and>
           (matches_or e cs t \<longleftrightarrow>
              regexI_test e x (title t) \<or>
              (\<exists>d. description t = Some d \<and> regexI_test e x d)) \<and>
           (list_all ascii x \<and> list_all (\<lambda>c. \<not> pcre_meta c) x \<longrightarrow>
              (matches_or e cs t \<longleftrightarrow>
                 ci_substring x (title t) \<or>
                 (\<exists>d. description t = Some d \<and> ci_substring x d)))"
proof -
  let ?cs = "[RegexI Title x, RegexI Description x]"
  have q: "q_or (getTodos_query e (Some (Val f))) = Some ?cs"
    using assms by (simp add: q_or_search)
  have m: "matches_or e ?cs t \<longleftrightarrow>
      regexI_test e x (title t) \<or> (\<exists>d. description t = Some d \<and> regexI_test e x d)"
    by (cases "description t") (simp_all add: matches_or_def)
  have l: "matches_or e ?cs t \<longleftrightarrow>
      ci_substring x (title t) \<or> (\<exists>d. description t = Some d \<and> ci_substring x d)"
    if "list_all ascii x \<and> list_all (\<lambda>c. \<not> pcre_meta c) x"
    using that m by (simp add: regexI_test_lits)
  from q m l show ?thesis by blast
qed

text \<open>
  The search string \<^verbatim>\<open>BANK\<close> matches the document titled \<^verbatim>\<open>Call the bank\<close> and not
  the one titled \<^verbatim>\<open>Write the report\<close>; the search string \<^verbatim>\<open>before.NOON\<close> is a
  pattern: it matches the description \<^verbatim>\<open>before noon\<close>, of which it is no substring.
\<close>

theorem search_clause_amended_witness:
  "f_search (no_filters\<lparr>f_search := Some (Val ''BANK'')\<rparr>) = Some (Val ''BANK'') \<and>
   ''BANK'' \<noteq> [] \<and>
   list_all ascii ''BANK'' \<and> list_all (\<lambda>c. \<not> pcre_meta c) ''BANK'' \<and>
   ci_substring ''BANK'' (title other_todo) \<and>
   \<not> ci_substring ''BANK'' (title fresh_todo) \<and>
   matches_or test_env [RegexI Title ''BANK'', RegexI Description ''BANK''] other_todo \<and>
   \<not> matches_or test_env [RegexI Title ''BANK'', RegexI Description ''BANK''] fresh_todo \<and>
   matches_or test_env [RegexI Title ''before.NOON'', RegexI Description ''before.NOON'']
     other_todo \<and>
   \<not> ci_substring ''before.NOON'' (title other_todo) \<and>
   description other_todo = Some ''before noon'' \<and>
   \<not> ci_substring ''before.NOON'' ''before noon''"
proof -
  have h1: "f_search (no_filters\<lparr>f_search := Some (Val ''BANK'')\<rparr>) = Some (Val ''BANK'')"
    by simp
  have h2: "''BANK'' \<noteq> []" by simp
  have h3: "list_all ascii ''BANK''" by code_simp
  have h4: "list_all (\<lambda>c. \<not> pcre_meta c) ''BANK''" by code_simp
  have s1: "ci_substring ''BANK'' (title other_todo)" by code_simp
  have s2: "\<not> ci_substring ''BANK'' (title fresh_todo)" by code_simp
  have d: "description fresh_todo = None" by (simp add: fresh_todo_def)
  have q: "q_or (getTodos_query test_env (Some (Val (no_filters\<lparr>f_search := Some (Val ''BANK'')\<rparr>)))) =
           Some [RegexI Title ''BANK'', RegexI Description ''BANK'']"
    by (simp add: q_or_search)
  from search_clause_amended [OF h1 h2, of test_env other_todo] obtain cs where
    "q_or (getTodos_query test_env (Some (Val (no_filters\<lparr>f_search := Some (Val ''BANK'')\<rparr>)))) =
       Some cs"
    "list_all ascii ''BANK'' \<and> list_all (\<lambda>c. \<not> pcre_meta c) ''BANK'' \<longrightarrow>
       (matches_or test_env cs other_todo \<longleftrightarrow>
          ci_substring ''BANK'' (title other_todo) \<or>
          (\<exists>d. description other_todo = Some d \<and> ci_substring ''BANK'' d))"
    by blast
  with q h3 h4 s1
  have m1: "matches_or test_env [RegexI Title ''BANK'', RegexI Description ''BANK''] other_todo"
    by auto
  from search_clause_amended [OF h1 h2, of test_env fresh_todo] obtain cs' where
    "q_or (getTodos_query test_env (Some (Val (no_filters\<lparr>f_search := Some (Val ''BANK'')\<rparr>)))) =
       Some cs'"
    "list_all ascii ''BANK'' \<and> list_all (\<lambda>c. \<not> pcre_meta c) ''BANK'' \<longrightarrow>
       (matches_or test_env cs' fresh_todo \<longleftrightarrow>
          ci_substring ''BANK'' (title fresh_todo) \<or>
          (\<exists>d. description fresh_todo = Some d \<and> ci_substring ''BANK'' d))"
    by blast
  with q h3 h4 s2 d
  have m2: "\<not> matches_or test_env [RegexI Title ''BANK'', RegexI Description ''BANK''] fresh_todo"
    by auto
  have g1: "f_search (no_filters\<lparr>f_search := Some (Val ''before.NOON'')\<rparr>) =
      Some (Val ''before.NOON'')"
    by simp
  have g2: "''before.NOON'' \<noteq> []" by simp
  have q': "q_or (getTodos_query test_env
        (Some (Val (no_filters\<lparr>f_search := Some (Val ''before.NOON'')\<rparr>)))) =
      Some [RegexI Title ''before.NOON'', RegexI Description ''before.NOON'']"
    by (simp add: q_or_search)
  have od: "description other_todo = Some ''before noon''"
    by (simp add: other_todo_def)
  have r: "regexI_test test_env ''before.NOON'' ''before noon''" by code_simp
  from search_clause_amended [OF g1 g2, of test_env other_todo] obtain cs'' where
    "q_or (getTodos_query test_env
        (Some (Val (no_filters\<lparr>f_search := Some (Val ''before.NOON'')\<rparr>)))) = Some cs''"
    "matches_or test_env cs'' other_todo \<longleftrightarrow>
       regexI_test test_env ''before.NOON'' (title other_todo) \<or>
       (\<exists>d. description other_todo = Some d \<and> regexI_test test_env ''before.NOON'' d)"
    by blast
  with q' od r
  have m3: "matches_or test_env
      [RegexI Title ''before.NOON'', RegexI Description ''before.NOON''] other_todo"
    by auto
  have n1: "\<not> ci_substring ''before.NOON'' (title other_todo)" by code_simp
  have n2: "\<not> ci_substring ''before.NOON'' ''before noon''" by code_simp
  from h1 h2 h3 h4 s1 s2 m1 m2 m3 n1 od n2 show ?thesis by blast
qed

section \<open>Update\<close>

text \<open>
  Claim C4, as stated, has the update fail with a NotFoundError on an id that is not in
  the collection. \<^verbatim>\<open>updateTodo\<close> of the service returns \<^verbatim>\<open>null\<close> there and raises
  nothing.
\<close>

theorem updateTodo_not_found_counterexample:
  "castObjectId test_env id_one = Some 1 \<and>
   find (\<lambda>t. todo_id t = 1) [other_todo] = None \<and>
   updateTodo test_env 5 id_one (empty_update\<lparr>u_completed := Some True\<rparr>) [other_todo] =
     (Inr None, [other_todo])"
  by (simp add: updateTodo_def findByIdAndUpdate_def updateTodo_data_def Let_def empty_update_def
      castDueDate_def validate_update_def test_env_def id_one_def other_todo_def)

text \<open>
  Claim C4 (amended). For every id string that casts to an ObjectId not present in the
  collection, and every update input that passes the casts and validators of the
  schema, \<^verbatim>\<open>updateTodo\<close> of the service returns \<^verbatim>\<open>null\<close> without raising and leaves the
  collection unchanged; the resolver of the mutation then fails with the plain
  \<^verbatim>\<open>Error\<close> whose message is \<^verbatim>\<open>Failed to update todo: Todo not found\<close>. No error of a
  kind of its own is raised for a missing id.
\<close>

theorem updateTodo_not_found_amended:
  assumes "castObjectId e tid = Some oid" and "oid \<notin> todo_id ` set s"
    and "input_accepted e input"
  shows "updateTodo e now tid input s = (Inr None, s) \<and>
         resolver_updateTodo e now now' tid input s =
           (Inl (ErrorWrapping ''Failed to update todo'' (Error ''Todo not found'')), s)"
proof -
  from assms(2) have absent: "find (\<lambda>t. todo_id t = oid) s = None"
    by (simp add: find_None_iff)
  from assms(1) absent assms(3) have "updateTodo e now tid input s = (Inr None, s)"
    by (rule updateTodo_absent)
  then show ?thesis by (simp add: resolver_updateTodo_def)
qed

theorem updateTodo_not_found_amended_witness:
  "castObjectId test_env id_one = Some 1 \<and> 1 \<notin> todo_id ` set [other_todo] \<and>
   input_accepted test_env (empty_update\<lparr>u_title := Some ''  Pay rent  ''\<rparr>) \<and>
   updateTodo test_env 5 id_one (empty_update\<lparr>u_title := Some ''  Pay rent  ''\<rparr>) [other_todo] =
     (Inr None, [other_todo]) \<and>
   resolver_updateTodo test_env 5 6 id_one (empty_update\<lparr>u_title := Some ''  Pay rent  ''\<rparr>)
       [other_todo] =
     (Inl (ErrorWrapping ''Failed to update todo'' (Error ''Todo not found'')), [other_todo])"
proof -
  have c: "castObjectId test_env id_one = Some 1"
    by (simp add: test_env_def id_one_def)
  have a: "1 \<notin> todo_id ` set [other_todo]"
    by (simp add: other_todo_def)
  have "trim ''  Pay rent  '' = ''Pay rent''"
    by code_simp
  then have i: "input_accepted test_env (empty_update\<lparr>u_title := Some ''  Pay rent  ''\<rparr>)"
    by (simp add: input_accepted_def empty_update_def castDueDate_def valid_title_def)
  from c a i updateTodo_not_found_amended [OF c a i, of 5 6] show ?thesis by simp
qed

text \<open>
  Claim C5. On every existing document, an update whose input has \<open>completed = true\<close>
  yields a document with \<open>status = COMPLETED\<close>, whatever the status was and whatever
  status the input supplies; an update whose input sets \<open>status = COMPLETED\<close> and does
  not mention \<open>completed\<close> leaves \<open>completed\<close> as it was. (An input that the casts or
  the validators of the schema refuse yields no document: the update fails and the
  collection is unchanged.)
\<close>

theorem updateTodo_completed_coupling:
  assumes "castObjectId e tid = Some oid" and "find (\<lambda>t. todo_id t = oid) s = Some old"
  shows "(input_accepted e input \<longrightarrow>
            (\<exists>t s'. updateTodo e now tid input s = (Inr (Some t), s') \<and>
               (u_completed input = Some True \<longrightarrow> status t = COMPLETED \<and> completed t = True) \<and>
               (u_completed input = None \<and> u_status input = Some COMPLETED \<longrightarrow>
                  status t = COMPLETED \<and> completed t = completed old))) \<and>
         (\<not> input_accepted e input \<longrightarrow> (\<exists>err. updateTodo e now tid input s = (Inl err, s)))"
proof (cases "input_accepted e input")
  case True
  from updateTodo_found [OF assms True, of now] obtain t where
    "updateTodo e now tid input s = (Inr (Some t), replace_first oid t s)"
    "status t = (if u_completed input = Some True then COMPLETED
                 else case u_status input of None \<Rightarrow> status old | Some v \<Rightarrow> v)"
    "completed t = (case u_completed input of None \<Rightarrow> completed old | Some c \<Rightarrow> c)"
    by blast
  with True show ?thesis by auto
next
  case False
  with updateTodo_rejected [OF assms(1) False, of now s] show ?thesis by simp
qed

text \<open>
  On the document in progress: \<^verbatim>\<open>{status: TODO, completed: true}\<close> ends at
  \<open>COMPLETED\<close> and completed, \<^verbatim>\<open>{status: COMPLETED}\<close> at \<open>COMPLETED\<close> and not completed.
\<close>

theorem updateTodo_completed_coupling_witness:
  "castObjectId test_env ''65f000000000000000000002'' = Some 2 \<and>
   find (\<lambda>t. todo_id t = 2) [fresh_todo, other_todo] = Some other_todo \<and>
   input_accepted test_env (empty_update\<lparr>u_status := Some TODO, u_completed := Some True\<rparr>) \<and>
   input_accepted test_env (empty_update\<lparr>u_status := Some COMPLETED\<rparr>) \<and>
   updateTodo test_env 5 ''65f000000000000000000002''
       (empty_update\<lparr>u_status := Some TODO, u_completed := Some True\<rparr>) [fresh_todo, other_todo] =
     (Inr (Some (other_todo\<lparr>status := COMPLETED, completed := True, updatedAt := 5\<rparr>)),
      [fresh_todo, other_todo\<lparr>status := COMPLETED, completed := True, updatedAt := 5\<rparr>]) \<and>
   updateTodo test_env 5 ''65f000000000000000000002''
       (empty_update\<lparr>u_status := Some COMPLETED\<rparr>) [fresh_todo, other_todo] =
     (Inr (Some (other_todo\<lparr>status := COMPLETED, updatedAt := 5\<rparr>)),
      [fresh_todo, other_todo\<lparr>status := COMPLETED, updatedAt := 5\<rparr>])"
proof -
  have c: "castObjectId test_env ''65f000000000000000000002'' = Some 2"
    by (simp add: test_env_def)
  have f: "find (\<lambda>t. todo_id t = 2) [fresh_todo, other_todo] = Some other_todo"
    by (simp add: fresh_todo_def other_todo_def)
  have i1: "input_accepted test_env (empty_update\<lparr>u_status := Some TODO, u_completed := Some True\<rparr>)"
    and i2: "input_accepted test_env (empty_update\<lparr>u_status := Some COMPLETED\<rparr>)"
    by (simp_all add: input_accepted_def empty_update_def castDueDate_def)
  have u1: "updateTodo test_env 5 ''65f000000000000000000002''
       (empty_update\<lparr>u_status := Some TODO, u_completed := Some True\<rparr>) [fresh_todo, other_todo] =
     (Inr (Some (other_todo\<lparr>status := COMPLETED, completed := True, updatedAt := 5\<rparr>)),
      [fresh_todo, other_todo\<lparr>status := COMPLETED, completed := True, updatedAt := 5\<rparr>])"
    using updateTodo_completed_coupling [OF c f, of
        "empty_update\<lparr>u_status := Some TODO, u_completed := Some True\<rparr>" 5] i1
    by (simp add: updateTodo_def findByIdAndUpdate_def updateTodo_data_def Let_def
        empty_update_def castDueDate_def validate_update_def apply_set_def test_env_def
        fresh_todo_def other_todo_def)
  have u2: "updateTodo test_env 5 ''65f000000000000000000002''
       (empty_update\<lparr>u_status := Some COMPLETED\<rparr>) [fresh_todo, other_todo] =
     (Inr (Some (other_todo\<lparr>status := COMPLETED, updatedAt := 5\<rparr>)),
      [fresh_todo, other_todo\<lparr>status := COMPLETED, updatedAt := 5\<rparr>])"
    using updateTodo_completed_coupling [OF c f, of
        "empty_update\<lparr>u_status := Some COMPLETED\<rparr>" 5] i2
    by (simp add: updateTodo_def findByIdAndUpdate_def updateTodo_data_def Let_def
        empty_update_def castDueDate_def validate_update_def apply_set_def test_env_def
        fresh_todo_def other_todo_def)
  from c f i1 i2 u1 u2 show ?thesis by blast
qed

text \<open>
  Claim C9. On every existing document, an update whose input has \<open>completed = false\<close>
  and no status yields a document with the status it had; applied to a document with
  \<open>status = COMPLETED\<close> it yields \<open>status = COMPLETED\<close> with \<open>completed = false\<close>. (An
  input that the casts or the validators of the schema refuse yields no document: the
  update fails and the collection is unchanged.)
\<close>

theorem updateTodo_uncomplete_keeps_status:
  assumes "castObjectId e tid = Some oid" and "find (\<lambda>t. todo_id t = oid) s = Some old"
    and "u_completed input = Some False" and "u_status input = None"
  shows "(input_accepted e input \<longrightarrow>
            (\<exists>t s'. updateTodo e now tid input s = (Inr (Some t), s') \<and>
               status t = status old \<and> completed t = False \<and>
               (status old = COMPLETED \<longrightarrow> status t = COMPLETED \<and> completed t = False))) \<and>
         (\<not> input_accepted e input \<longrightarrow> (\<exists>err. updateTodo e now tid input s = (Inl err, s)))"
proof (cases "input_accepted e input")
  case True
  from updateTodo_found [OF assms(1,2) True, of now] obtain t where
    "updateTodo e now tid input s = (Inr (Some t), replace_first oid t s)"
    "status t = (if u_completed input = Some True then COMPLETED
                 else case u_status input of None \<Rightarrow> status old | Some v \<Rightarrow> v)"
    "completed t = (case u_completed input of None \<Rightarrow> completed old | Some c \<Rightarrow> c)"
    by blast
  with True assms(3,4) show ?thesis by auto
next
  case False
  with updateTodo_rejected [OF assms(1) False, of now s] show ?thesis by simp
qed

text \<open>
  The mixed state is reached through the service alone: the document that
  \<^verbatim>\<open>createTodo\<close> leaves is toggled, which completes it, and then updated with
  \<^verbatim>\<open>{completed: false}\<close>.
\<close>

theorem updateTodo_uncomplete_keeps_status_witness:
  "castObjectId test_env id_one = Some 1 \<and>
   toggleTodoStatus test_env 5 id_one [fresh_todo] =
     (Inr (Some (fresh_todo\<lparr>status := COMPLETED, completed := True, updatedAt := 5\<rparr>)),
      [fresh_todo\<lparr>status := COMPLETED, completed := True, updatedAt := 5\<rparr>]) \<and>
   input_accepted test_env (empty_update\<lparr>u_completed := Some False\<rparr>) \<and>
   updateTodo test_env 6 id_one (empty_update\<lparr>u_completed := Some False\<rparr>)
       [fresh_todo\<lparr>status := COMPLETED, completed := True, updatedAt := 5\<rparr>] =
     (Inr (Some (fresh_todo\<lparr>status := COMPLETED, completed := False, updatedAt := 6\<rparr>)),
      [fresh_todo\<lparr>status := COMPLETED, completed := False, updatedAt := 6\<rparr>])"
proof -
  let ?done = "fresh_todo\<lparr>status := COMPLETED, completed := True, updatedAt := 5\<rparr>"
  have c: "castObjectId test_env id_one = Some 1"
    by (simp add: test_env_def id_one_def)
  have g: "toggleTodoStatus test_env 5 id_one [fresh_todo] = (Inr (Some ?done), [?done])"
    by (simp add: toggleTodoStatus_def findById_def save_def Let_def valid_todo_def
        valid_title_def test_env_def id_one_def fresh_todo_def)
  have f: "find (\<lambda>t. todo_id t = 1) [?done] = Some ?done"
    by (simp add: fresh_todo_def)
  have i: "input_accepted test_env (empty_update\<lparr>u_completed := Some False\<rparr>)"
    by (simp add: input_accepted_def empty_update_def castDueDate_def)
  have u: "updateTodo test_env 6 id_one (empty_update\<lparr>u_completed := Some False\<rparr>) [?done] =
     (Inr (Some (fresh_todo\<lparr>status := COMPLETED, completed := False, updatedAt := 6\<rparr>)),
      [fresh_todo\<lparr>status := COMPLETED, completed := False, updatedAt := 6\<rparr>])"
    using updateTodo_uncomplete_keeps_status [OF c f, of
        "empty_update\<lparr>u_completed := Some False\<rparr>" 6] i
    by (simp add: updateTodo_def findByIdAndUpdate_def updateTodo_data_def Let_def
        empty_update_def castDueDate_def validate_update_def apply_set_def test_env_def
        id_one_def fresh_todo_def)
  from c g i u show ?thesis by blast
qed

section \<open>Toggle\<close>




section \<open>The frame of the mutations by id\<close>

text \<open>
  Claim C10. For every state of the collection, \<^verbatim>\<open>updateTodo\<close>, \<^verbatim>\<open>toggleTodoStatus\<close>
  and \<^verbatim>\<open>deleteTodo\<close> leave every document whose id differs from the targeted id as it
  was: the documents with another id are the same, in the same order, before and after,
  whether the operation succeeds or fails. When no document has the targeted id, the
  whole collection is unchanged.
\<close>

theorem id_mutations_frame:
  "filter (\<lambda>t. Some (todo_id t) \<noteq> castObjectId e tid) (snd (updateTodo e now tid input s)) =
     filter (\<lambda>t. Some (todo_id t) \<noteq> castObjectId e tid) s \<and>
   filter (\<lambda>t. Some (todo_id t) \<noteq> castObjectId e tid) (snd (toggleTodoStatus e now tid s)) =
     filter (\<lambda>t. Some (todo_id t) \<noteq> castObjectId e tid) s \<and>
   filter (\<lambda>t. Some (todo_id t) \<noteq> castObjectId e tid) (snd (deleteTodo e tid s)) =
     filter (\<lambda>t. Some (todo_id t) \<noteq> castObjectId e tid) s \<and>
   ((\<forall>t \<in> set s. Some (todo_id t) \<noteq> castObjectId e tid) \<longrightarrow>
      snd (updateTodo e now tid input s) = s \<and>
      snd (toggleTodoStatus e now tid s) = s \<and>
      snd (deleteTodo e tid s) = s)"
proof (cases "castObjectId e tid")
  case None
  then have "snd (updateTodo e now tid input s) = s" "snd (toggleTodoStatus e now tid s) = s"
    "snd (deleteTodo e tid s) = s"
    by (simp_all add: updateTodo_unchanged toggle_unchanged deleteTodo_unchanged)
  then show ?thesis by simp
next
  case (Some oid)
  have frame: "filter (\<lambda>t. todo_id t \<noteq> oid) (snd (updateTodo e now tid input s)) =
      filter (\<lambda>t. todo_id t \<noteq> oid) s"
    "filter (\<lambda>t. todo_id t \<noteq> oid) (snd (toggleTodoStatus e now tid s)) =
      filter (\<lambda>t. todo_id t \<noteq> oid) s"
    "filter (\<lambda>t. todo_id t \<noteq> oid) (snd (deleteTodo e tid s)) =
      filter (\<lambda>t. todo_id t \<noteq> oid) s"
    using Some by (simp_all add: updateTodo_frame toggle_frame deleteTodo_frame)
  have absent: "snd (updateTodo e now tid input s) = s \<and>
      snd (toggleTodoStatus e now tid s) = s \<and> snd (deleteTodo e tid s) = s"
    if "\<forall>t \<in> set s. todo_id t \<noteq> oid"
  proof -
    from that have "find (\<lambda>t. todo_id t = oid) s = None"
      by (auto simp: find_None_iff)
    with Some show ?thesis
      by (simp add: updateTodo_unchanged toggle_unchanged deleteTodo_unchanged)
  qed
  from frame absent show ?thesis by (simp add: Some)
qed

text \<open>
  With the first document as the target, the second one stays, whether the first is
  updated, toggled or deleted; and on a collection that holds only the second
  document nothing changes.
\<close>

theorem id_mutations_frame_witness:
  "castObjectId test_env id_one = Some 1 \<and> todo_id other_todo \<noteq> 1 \<and>
   filter (\<lambda>t. Some (todo_id t) \<noteq> castObjectId test_env id_one)
     (snd (updateTodo test_env 5 id_one (empty_update\<lparr>u_completed := Some True\<rparr>)
        [fresh_todo, other_todo])) = [other_todo] \<and>
   filter (\<lambda>t. Some (todo_id t) \<noteq> castObjectId test_env id_one)
     (snd (toggleTodoStatus test_env 5 id_one [fresh_todo, other_todo])) = [other_todo] \<and>
   snd (deleteTodo test_env id_one [fresh_todo, other_todo]) = [other_todo] \<and>
   snd (updateTodo test_env 5 id_one (empty_update\<lparr>u_completed := Some True\<rparr>) [other_todo]) =
     [other_todo] \<and>
   snd (toggleTodoStatus test_env 5 id_one [other_todo]) = [other_todo] \<and>
   snd (deleteTodo test_env id_one [other_todo]) = [other_todo]"
proof -
  have c: "castObjectId test_env id_one = Some 1"
    by (simp add: test_env_def id_one_def)
  have i: "todo_id other_todo \<noteq> 1" "todo_id fresh_todo = 1"
    by (simp_all add: other_todo_def fresh_todo_def)
  have d: "snd (deleteTodo test_env id_one [fresh_todo, other_todo]) = [other_todo]"
    using c i by (simp add: deleteTodo_def findByIdAndDelete_def)
  from id_mutations_frame [of test_env id_one 5 "empty_update\<lparr>u_completed := Some True\<rparr>"
      "[fresh_todo, other_todo]"]
    id_mutations_frame [of test_env id_one 5 "empty_update\<lparr>u_completed := Some True\<rparr>"
      "[other_todo]"] c i d
  show ?thesis by simp
qed

end
